theory Spec2Isabelle
  imports Complex_Main
begin

section \<open>Marine Guard: the rule-based post-processing of the ML analysis module\<close>

text \<open>
  The development embeds the two copies of the ML analysis module of the repository
  (the one in \<^verbatim>\<open>src/hooks/usePollutionData.tsx\<close>, whose \<^verbatim>\<open>analyzeText\<close> detects the
  pollution type from keywords, and the one in \<^verbatim>\<open>unnamed/part_001\<close>, whose
  \<^verbatim>\<open>analyzeText\<close> reads it from a zero-shot classifier) and the \<^verbatim>\<open>simulateAnalysis\<close>
  handler of the PollutionDetector component in \<^verbatim>\<open>src/pages/Index.tsx\<close>.

  Conventions of the embedding.
  \<^item> A JavaScript string is a \<^typ>\<open>string\<close>; \<^verbatim>\<open>toLowerCase\<close> maps the letters A to Z
    to a to z and leaves every other character as it is.
  \<^item> A JavaScript number is a \<^typ>\<open>real\<close>: scores are finite numbers, a decimal
    literal stands for the number it writes, and sums and products are exact, where the
    program rounds them to the nearest double. Rounding is monotone, so the comparisons
    and the order of the computed scores are those of the program; the digits of a
    computed product are not (the program's 0.7 * 0.95 is 0.6649999999999999).
  \<^item> An awaited call of the inference library either yields a value or throws; it is a
    value of type \<open>string + 'a\<close>, \<open>Inl\<close> carrying the message of the exception.
  \<^item> An asynchronous function returns the list of the values it has passed to
    \<^verbatim>\<open>onProgress\<close>, in order, together with its outcome.
  \<^item> \<^verbatim>\<open>Math.random\<close> is a sequence \<open>rnd :: nat \<Rightarrow> real\<close> with a counter of the values
    already drawn.
  \<^item> Calls of \<^verbatim>\<open>console.log\<close>, \<^verbatim>\<open>console.warn\<close> and \<^verbatim>\<open>console.error\<close> are left out.
\<close>

subsection \<open>Strings\<close>

fun startsWith :: "string \<Rightarrow> string \<Rightarrow> bool" where
  "startsWith s [] = True"
| "startsWith [] (k # ks) = False"
| "startsWith (c # cs) (k # ks) = (c = k \<and> startsWith cs ks)"

text \<open>\<^verbatim>\<open>s.includes(k)\<close>: the string \<open>k\<close> occurs in \<open>s\<close> as a contiguous substring.\<close>

fun includes_str :: "string \<Rightarrow> string \<Rightarrow> bool" where
  "includes_str [] k = (k = [])"
| "includes_str (c # cs) k = (startsWith (c # cs) k \<or> includes_str cs k)"

definition lowerChar :: "char \<Rightarrow> char" where
  "lowerChar c =
     (case map_of (zip ''ABCDEFGHIJKLMNOPQRSTUVWXYZ'' ''abcdefghijklmnopqrstuvwxyz'') c of
        Some d \<Rightarrow> d
      | None \<Rightarrow> c)"

definition toLowerCase :: "string \<Rightarrow> string" where
  "toLowerCase s = map lowerChar s"

subsection \<open>Data model\<close>

datatype policy_type = Regulation | Framework | Agreement | Law

datatype policy_status = Active | Draft | Archived

datatype compliance = Compliant | Violation | Unclear

datatype severity_level = Low | Medium | High | Critical

text \<open>
  \<^verbatim>\<open>interface PolicyDocument\<close>. The fields \<^verbatim>\<open>id\<close>, \<^verbatim>\<open>type\<close> and \<^verbatim>\<open>status\<close> are
  \<open>docId\<close>, \<open>docType\<close> and \<open>docStatus\<close> here.
\<close>

record PolicyDocument =
  docId :: string
  title :: string
  docType :: policy_type
  jurisdiction :: string
  summary :: string
  keyEntities :: "string list"
  relevanceScore :: real
  lastUpdated :: string
  docStatus :: policy_status

record PolicyMatch =
  document :: PolicyDocument
  matchedSections :: "string list"
  complianceStatus :: compliance
  recommendations :: "string list"

text \<open>What a classification pipeline returns for one label: \<^verbatim>\<open>{label, score}\<close>.\<close>

record prediction =
  label :: string
  score :: real

text \<open>The outcome of an asynchronous function: it returns, or it throws an \<^verbatim>\<open>Error\<close>.
  \<open>NotANumber\<close> stands for a run that returns values holding \<^verbatim>\<open>NaN\<close>, which a
  \<^typ>\<open>real\<close> cannot hold.\<close>

datatype 'a outcome = Returned 'a | Threw string | NotANumber

subsection \<open>The mock policy database\<close>

definition policyDatabase :: "PolicyDocument list" where
  "policyDatabase =
     [\<lparr>docId = ''1'',
       title = ''MARPOL Convention - Annex V (Garbage)'',
       docType = Agreement,
       jurisdiction = ''International (IMO)'',
       summary = ''Prohibits discharge of garbage from ships, including plastics and other harmful substances'',
       keyEntities = [''plastic waste'', ''ship discharge'', ''special areas'', ''penalties''],
       relevanceScore = 0.95,
       lastUpdated = ''2023-12-01'',
       docStatus = Active\<rparr>,
      \<lparr>docId = ''2'',
       title = ''EU Marine Strategy Framework Directive'',
       docType = Framework,
       jurisdiction = ''European Union'',
       summary = ''Establishes framework for marine environmental protection with specific targets for marine litter'',
       keyEntities = [''marine litter'', ''good environmental status'', ''member states'', ''monitoring''],
       relevanceScore = 0.88,
       lastUpdated = ''2023-11-15'',
       docStatus = Active\<rparr>,
      \<lparr>docId = ''3'',
       title = ''Clean Water Act - Marine Protection'',
       docType = Law,
       jurisdiction = ''United States'',
       summary = ''Federal law governing water pollution, including marine environments and coastal zones'',
       keyEntities = [''water pollution'', ''discharge permits'', ''coastal zones'', ''enforcement''],
       relevanceScore = 0.82,
       lastUpdated = ''2023-10-20'',
       docStatus = Active\<rparr>]"

subsection \<open>Mapping a classification onto the policy database\<close>

text \<open>
  The body of the callback of \<^verbatim>\<open>policyDatabase.map((policy, index) => ...)\<close>, the same in
  both copies of \<^verbatim>\<open>analyzeText\<close>.
\<close>

definition policyMatch :: "string \<Rightarrow> real \<Rightarrow> nat \<Rightarrow> PolicyDocument \<Rightarrow> PolicyMatch" where
  "policyMatch topPollutionType conf index policy =
     \<lparr>document = policy\<lparr>relevanceScore := max 0.6 (conf * relevanceScore policy)\<rparr>,
      matchedSections =
        [''Section related to '' @ topPollutionType,
         ''Compliance requirements for '' @ topPollutionType],
      complianceStatus =
        (if conf > 0.8
         then (if index = 0 then Violation else if index = 1 then Unclear else Compliant)
         else Unclear),
      recommendations =
        [''Address '' @ topPollutionType @ '' according to '' @ title policy,
         ''Implement immediate mitigation measures'',
         ''Report to relevant authorities as required'']\<rparr>"

text \<open>
  \<^verbatim>\<open>policyDatabase.map(...)\<close> followed by
  \<^verbatim>\<open>matches.sort((a, b) => b.document.relevanceScore - a.document.relevanceScore)\<close>:
  a stable sort, larger scores first.
\<close>

definition policyMatches :: "string \<Rightarrow> real \<Rightarrow> PolicyMatch list" where
  "policyMatches topPollutionType conf =
     sort_key (\<lambda>m. - relevanceScore (document m))
       (map (\<lambda>(index, policy). policyMatch topPollutionType conf index policy)
          (enumerate 0 policyDatabase))"

subsection \<open>\<^verbatim>\<open>analyzeText\<close> of \<^verbatim>\<open>src/hooks/usePollutionData.tsx\<close>\<close>

text \<open>The keyword table, in the order in which \<^verbatim>\<open>Object.entries\<close> enumerates it.\<close>

definition pollutionKeywords :: "(string \<times> string list) list" where
  "pollutionKeywords =
     [(''plastic pollution'', [''plastic'', ''microplastic'', ''bottle'', ''bag'', ''debris'']),
      (''oil spill'', [''oil'', ''spill'', ''petroleum'', ''crude'', ''leak'']),
      (''chemical contamination'', [''chemical'', ''toxic'', ''contamination'', ''pollutant'']),
      (''marine debris'', [''debris'', ''trash'', ''garbage'', ''waste'', ''litter'']),
      (''industrial waste'', [''industrial'', ''factory'', ''discharge'', ''effluent'']),
      (''sewage discharge'', [''sewage'', ''wastewater'', ''runoff'', ''drainage''])]"

text \<open>
  The loop \<^verbatim>\<open>for (const [type, keywords] of Object.entries(pollutionKeywords))\<close> with its
  \<^verbatim>\<open>break\<close>; when the loop runs out, \<open>detectedType\<close> and \<open>confidence\<close> keep their
  initial values.
\<close>

fun detectType :: "(string \<times> string list) list \<Rightarrow> string \<Rightarrow> string \<times> real" where
  "detectType [] text = (''general pollution'', 0.5)"
| "detectType ((ty, keywords) # rest) text =
     (let matchCount = length (filter (\<lambda>keyword. includes_str (toLowerCase text) keyword) keywords)
      in if matchCount > 0
         then (ty, min 0.9 (0.5 + (real matchCount * 0.1)))
         else detectType rest text)"

type_synonym text_classifier = "string \<Rightarrow> string + prediction list"

definition failedText :: string where
  "failedText = ''Failed to analyze text. Please try again.''"

definition analyzeText ::
  "string + text_classifier \<Rightarrow> string \<Rightarrow> nat list \<times> PolicyMatch list outcome" where
  "analyzeText getTextClassifier text =
     (case getTextClassifier of
        Inl e \<Rightarrow> ([20], Threw failedText)
      | Inr classifier \<Rightarrow>
          (case classifier text of
             Inl e \<Rightarrow> ([20, 40], Threw failedText)
           | Inr sentiment \<Rightarrow>
               (let (detectedType, conf) = detectType pollutionKeywords text
                in ([20, 40, 60, 80, 100], Returned (policyMatches detectedType conf)))))"

subsection \<open>\<^verbatim>\<open>analyzeText\<close> of \<^verbatim>\<open>unnamed/part_001\<close>\<close>

text \<open>
  What the zero-shot classification pipeline returns, as far as the code reads it:
  the candidate labels and their scores, best first.
\<close>

record zeroShotOutput =
  labels :: "string list"
  scores :: "real list"

type_synonym zero_shot_classifier = "string \<Rightarrow> string list \<Rightarrow> string + zeroShotOutput"

type_synonym sentiment_analyzer = "string \<Rightarrow> string + prediction list"

definition pollutionLabels :: "string list" where
  "pollutionLabels =
     [''plastic pollution'', ''oil spill'', ''chemical contamination'',
      ''marine debris'', ''industrial waste'', ''sewage discharge'']"

text \<open>
  \<^verbatim>\<open>labels[0]\<close> of an empty array is \<^verbatim>\<open>undefined\<close>, which a template literal prints as
  the word undefined; \<^verbatim>\<open>scores[0]\<close> of an empty array is \<^verbatim>\<open>undefined\<close> too, and every
  relevance score computed from it is \<^verbatim>\<open>NaN\<close>.
\<close>

definition analyzeText_zs ::
  "string + zero_shot_classifier \<Rightarrow> string + sentiment_analyzer \<Rightarrow> string \<Rightarrow>
     nat list \<times> PolicyMatch list outcome" where
  "analyzeText_zs getTextClassifier getSentimentAnalyzer text =
     (case getTextClassifier of
        Inl e \<Rightarrow> ([20], Threw failedText)
      | Inr classifier \<Rightarrow>
          (case getSentimentAnalyzer of
             Inl e \<Rightarrow> ([20], Threw failedText)
           | Inr sentimentAnalyzer \<Rightarrow>
               (case classifier text pollutionLabels of
                  Inl e \<Rightarrow> ([20, 40], Threw failedText)
                | Inr pollutionClassification \<Rightarrow>
                    (case sentimentAnalyzer text of
                       Inl e \<Rightarrow> ([20, 40, 60], Threw failedText)
                     | Inr sentiment \<Rightarrow>
                         (let topPollutionType =
                                (case labels pollutionClassification of
                                   [] \<Rightarrow> ''undefined''
                                 | l # _ \<Rightarrow> l)
                          in case scores pollutionClassification of
                               [] \<Rightarrow> ([20, 40, 60, 80, 100], NotANumber)
                             | conf # _ \<Rightarrow>
                                 ([20, 40, 60, 80, 100],
                                  Returned (policyMatches topPollutionType conf)))))))"

subsection \<open>\<^verbatim>\<open>analyzeImage\<close>\<close>

text \<open>The location of a result; its fields \<^verbatim>\<open>x\<close>, \<^verbatim>\<open>y\<close>, \<^verbatim>\<open>width\<close>, \<^verbatim>\<open>height\<close>.\<close>

record bounding_box =
  loc_x :: real
  loc_y :: real
  loc_width :: real
  loc_height :: real

text \<open>
  \<^verbatim>\<open>interface ImageAnalysisResult\<close>, and \<^verbatim>\<open>interface DetectionResult\<close> of the
  PollutionDetector, which has the same fields. The field \<^verbatim>\<open>type\<close> is \<open>resultType\<close> here.
\<close>

record ImageAnalysisResult =
  resultType :: string
  confidence :: real
  location :: bounding_box
  severity :: severity_level

type_synonym DetectionResult = ImageAnalysisResult

type_synonym image_classifier = "string \<Rightarrow> string + prediction list"

definition imageKeywords :: "string list" where
  "imageKeywords =
     [''plastic'', ''waste'', ''trash'', ''debris'', ''oil'', ''spill'', ''contamination'',
      ''pollution'', ''garbage'', ''litter'']"

definition isPollutionRelated :: "string \<Rightarrow> bool" where
  "isPollutionRelated lbl =
     list_ex (\<lambda>keyword. includes_str lbl keyword \<or> includes_str keyword lbl) imageKeywords"

text \<open>The four calls of \<^verbatim>\<open>Math.random\<close> of a location, in the order of the object literal.\<close>

definition randomLocation :: "(nat \<Rightarrow> real) \<Rightarrow> nat \<Rightarrow> bounding_box \<times> nat" where
  "randomLocation rnd n =
     (\<lparr>loc_x = rnd n * 300 + 50,
       loc_y = rnd (n + 1) * 200 + 50,
       loc_width = rnd (n + 2) * 150 + 100,
       loc_height = rnd (n + 3) * 100 + 80\<rparr>,
      n + 4)"

text \<open>The chain of \<^verbatim>\<open>if\<close>s that gives a prediction its pollution type and severity.\<close>

definition categorize :: "prediction \<Rightarrow> string \<times> severity_level" where
  "categorize p =
     (let lbl = toLowerCase (label p); sc = score p
      in if includes_str lbl ''plastic'' \<or> includes_str lbl ''trash'' \<or> includes_str lbl ''garbage''
         then (''Plastic Debris'', if sc > 0.7 then High else if sc > 0.5 then Medium else Low)
         else if includes_str lbl ''oil'' \<or> includes_str lbl ''spill''
         then (''Oil Contamination'', if sc > 0.6 then Critical else if sc > 0.4 then High else Medium)
         else if includes_str lbl ''chemical'' \<or> includes_str lbl ''contamination''
         then (''Chemical Waste'', if sc > 0.6 then Critical else if sc > 0.4 then High else Medium)
         else (label p, if sc > 0.8 then High else if sc > 0.6 then Medium else Low))"

text \<open>
  The body of \<^verbatim>\<open>predictions.forEach\<close>; its state is the array \<^verbatim>\<open>results\<close> and the number
  of random values drawn so far.
\<close>

definition pushPrediction ::
  "(nat \<Rightarrow> real) \<Rightarrow> prediction \<Rightarrow> ImageAnalysisResult list \<times> nat \<Rightarrow>
     ImageAnalysisResult list \<times> nat" where
  "pushPrediction rnd p st =
     (case st of (results, n) \<Rightarrow>
        if isPollutionRelated (toLowerCase (label p)) \<or> score p > 0.3
        then (case categorize p of (pollutionType, sev) \<Rightarrow>
                case randomLocation rnd n of (loc, n') \<Rightarrow>
                  (results @ [\<lparr>resultType = pollutionType, confidence = score p,
                                location = loc, severity = sev\<rparr>], n'))
        else (results, n))"

definition forEachPrediction ::
  "(nat \<Rightarrow> real) \<Rightarrow> prediction list \<Rightarrow> ImageAnalysisResult list \<times> nat" where
  "forEachPrediction rnd predictions = fold (pushPrediction rnd) predictions ([], 0)"

definition fallbackResult :: "(nat \<Rightarrow> real) \<Rightarrow> nat \<Rightarrow> prediction \<Rightarrow> ImageAnalysisResult" where
  "fallbackResult rnd n topPrediction =
     \<lparr>resultType = ''Potential '' @ label topPrediction,
      confidence = score topPrediction,
      location = fst (randomLocation rnd n),
      severity = (if score topPrediction > 0.7 then Medium else Low)\<rparr>"

definition failedImage :: string where
  "failedImage = ''Failed to analyze image. Please try again.''"

definition analyzeImage ::
  "(nat \<Rightarrow> real) \<Rightarrow> string + image_classifier \<Rightarrow> string \<Rightarrow>
     nat list \<times> ImageAnalysisResult list outcome" where
  "analyzeImage rnd getImageClassifier imageUrl =
     (case getImageClassifier of
        Inl e \<Rightarrow> ([20], Threw failedImage)
      | Inr classifier \<Rightarrow>
          (case classifier imageUrl of
             Inl e \<Rightarrow> ([20, 40], Threw failedImage)
           | Inr predictions \<Rightarrow>
               (case forEachPrediction rnd predictions of (results, n) \<Rightarrow>
                  ([20, 40, 70, 100],
                   Returned (take 5
                     (if length results = 0 \<and> length predictions > 0
                      then results @ [fallbackResult rnd n (hd predictions)]
                      else results))))))"

subsection \<open>\<^verbatim>\<open>simulateAnalysis\<close> of the PollutionDetector\<close>

text \<open>The uploaded \<^verbatim>\<open>File\<close>: its name, its MIME type and its bytes.\<close>

record File =
  fileName :: string
  fileType :: string
  fileBytes :: "nat list"

text \<open>
  What the handler does to the component, in order: the calls of the state setters, the
  timeouts it awaits (in milliseconds) and the toast it shows.
\<close>

datatype ui_event =
    SetIsAnalyzing bool
  | SetAnalysisProgress nat
  | AwaitTimeout nat
  | SetResults "DetectionResult list"
  | Toast string string

definition steps :: "(nat \<times> string) list" where
  "steps =
     [(20, ''Preprocessing image...''),
      (45, ''Running CNN detection...''),
      (70, ''Analyzing pollution patterns...''),
      (90, ''Generating report...''),
      (100, ''Analysis complete!'')]"

definition mockResults :: "DetectionResult list" where
  "mockResults =
     [\<lparr>resultType = ''Plastic Debris'', confidence = 0.94,
       location = \<lparr>loc_x = 120, loc_y = 80, loc_width = 150, loc_height = 100\<rparr>,
       severity = High\<rparr>,
      \<lparr>resultType = ''Oil Contamination'', confidence = 0.87,
       location = \<lparr>loc_x = 300, loc_y = 200, loc_width = 200, loc_height = 120\<rparr>,
       severity = Critical\<rparr>,
      \<lparr>resultType = ''Chemical Waste'', confidence = 0.76,
       location = \<lparr>loc_x = 50, loc_y = 300, loc_width = 180, loc_height = 90\<rparr>,
       severity = Medium\<rparr>]"

text \<open>The decimal numeral of a length, as a template literal prints it.\<close>

fun showNat :: "nat \<Rightarrow> string" where
  "showNat n =
     (if n < 10 then [''0123456789'' ! n]
      else showNat (n div 10) @ [''0123456789'' ! (n mod 10)])"

declare showNat.simps [simp del]

definition simulateAnalysis :: "File option \<Rightarrow> ui_event list" where
  "simulateAnalysis imageFile =
     (case imageFile of
        None \<Rightarrow> []
      | Some f \<Rightarrow>
          [SetIsAnalyzing True, SetAnalysisProgress 0]
          @ concat (map (\<lambda>(progress, message). [AwaitTimeout 800, SetAnalysisProgress progress]) steps)
          @ [SetResults mockResults,
             SetIsAnalyzing False,
             Toast ''Analysis Complete''
               (''Detected '' @ showNat (length mockResults)
                  @ '' pollution sources with high confidence.'')])"

section \<open>Properties\<close>

subsection \<open>Substrings\<close>

lemma startsWith_iff: "startsWith s k = (\<exists>v. s = k @ v)"
  by (induction s k rule: startsWith.induct) auto

text \<open>\<open>includes_str s k\<close> holds exactly when \<open>k\<close> is a contiguous part of \<open>s\<close>.\<close>

lemma includes_str_iff: "includes_str s k = (\<exists>u v. s = u @ k @ v)"
proof (induction s)
  case Nil
  show ?case by simp
next
  case (Cons c cs)
  show ?case
  proof
    assume "includes_str (c # cs) k"
    then consider "startsWith (c # cs) k" | "includes_str cs k" by auto
    then show "\<exists>u v. c # cs = u @ k @ v"
    proof cases
      case 1
      then obtain v where "c # cs = k @ v" by (auto simp add: startsWith_iff)
      then have "c # cs = [] @ k @ v" by simp
      then show ?thesis by blast
    next
      case 2
      then obtain u v where "cs = u @ k @ v" using Cons.IH by auto
      then have "c # cs = (c # u) @ k @ v" by simp
      then show ?thesis by blast
    qed
  next
    assume "\<exists>u v. c # cs = u @ k @ v"
    then obtain u v where uv: "c # cs = u @ k @ v" by blast
    show "includes_str (c # cs) k"
    proof (cases u)
      case Nil
      with uv have "startsWith (c # cs) k" by (auto simp add: startsWith_iff)
      then show ?thesis by simp
    next
      case (Cons d u')
      with uv have "cs = u' @ k @ v" by simp
      then have "includes_str cs k" using Cons.IH by blast
      then show ?thesis by simp
    qed
  qed
qed

subsection \<open>Keyword detection\<close>

lemma filter_empty_list_ex: "(filter P xs = []) = (\<not> list_ex P xs)"
  by (induction xs) auto

lemma detectType_find:
  "detectType cats text =
     (case find (\<lambda>(ty, kws). list_ex (includes_str (toLowerCase text)) kws) cats of
        None \<Rightarrow> (''general pollution'', 0.5)
      | Some (ty, kws) \<Rightarrow>
          (ty, min 0.9 (0.5 + 0.1 * real (length (filter (includes_str (toLowerCase text)) kws)))))"
proof (induction cats)
  case Nil
  show ?case by simp
next
  case (Cons cat cats)
  obtain ty kws where cat: "cat = (ty, kws)" by (cases cat)
  show ?case
  proof (cases "list_ex (includes_str (toLowerCase text)) kws")
    case True
    then show ?thesis
      by (simp add: cat filter_empty_list_ex Let_def mult.commute)
  next
    case False
    then show ?thesis
      using Cons.IH by (simp add: cat filter_empty_list_ex Let_def)
  qed
qed

text \<open>
  C1. The detected pollution type is the first category, in the order plastic pollution,
  oil spill, chemical contamination, marine debris, industrial waste, sewage discharge,
  with a keyword that occurs in the lowercased text; the confidence is
  \<open>min 0.9 (0.5 + 0.1 * matchCount)\<close>, where \<open>matchCount\<close> is the number of keywords of that
  category that occur in the lowercased text. When no category has such a keyword the type
  is general pollution and the confidence 0.5.
\<close>

theorem detectType_first_matching_category:
  "map fst pollutionKeywords =
     [''plastic pollution'', ''oil spill'', ''chemical contamination'',
      ''marine debris'', ''industrial waste'', ''sewage discharge'']
   \<and> detectType pollutionKeywords text =
     (case find (\<lambda>(ty, kws). list_ex (includes_str (toLowerCase text)) kws) pollutionKeywords of
        None \<Rightarrow> (''general pollution'', 0.5)
      | Some (ty, kws) \<Rightarrow>
          (ty, min 0.9 (0.5 + 0.1 * real (length (filter (includes_str (toLowerCase text)) kws)))))"
proof
  show "map fst pollutionKeywords =
     [''plastic pollution'', ''oil spill'', ''chemical contamination'',
      ''marine debris'', ''industrial waste'', ''sewage discharge'']"
    by (simp add: pollutionKeywords_def)
next
  show "detectType pollutionKeywords text =
     (case find (\<lambda>(ty, kws). list_ex (includes_str (toLowerCase text)) kws) pollutionKeywords of
        None \<Rightarrow> (''general pollution'', 0.5)
      | Some (ty, kws) \<Rightarrow>
          (ty, min 0.9 (0.5 + 0.1 * real (length (filter (includes_str (toLowerCase text)) kws)))))"
    by (rule detectType_find)
qed

subsection \<open>The policy matches\<close>

lemma relevance_order:
  fixes c :: real
  shows "max 0.6 (c * 0.88) \<le> max 0.6 (c * 0.95)"
    and "max 0.6 (c * 0.82) \<le> max 0.6 (c * 0.88)"
proof -
  have mono: "max 0.6 (c * a) \<le> max 0.6 (c * b)" if "0 \<le> a" "a \<le> b" for a b :: real
  proof (cases "0 \<le> c")
    case True
    with that have "c * a \<le> c * b" by (intro mult_left_mono)
    then show ?thesis by (simp add: max_def)
  next
    case False
    with that have "c * a \<le> 0" "c * b \<le> 0" by (simp_all add: mult_le_0_iff)
    then show ?thesis by (simp add: max_def)
  qed
  show "max 0.6 (c * 0.88) \<le> max 0.6 (c * 0.95)" by (rule mono) simp_all
  show "max 0.6 (c * 0.82) \<le> max 0.6 (c * 0.88)" by (rule mono) simp_all
qed

text \<open>The scores computed from the database are already in decreasing order, so the
  stable sort leaves the matches in the order of the database.\<close>

lemma policyMatches_unsorted:
  "policyMatches t c =
     map (\<lambda>(index, policy). policyMatch t c index policy) (enumerate 0 policyDatabase)"
  unfolding policyMatches_def
proof (rule sort_key_id_if_sorted)
  show "sorted (map (\<lambda>m. - relevanceScore (document m))
          (map (\<lambda>(index, policy). policyMatch t c index policy) (enumerate 0 policyDatabase)))"
    using relevance_order [of c] by (simp add: policyDatabase_def policyMatch_def)
qed

lemma policyMatches_length: "length (policyMatches t c) = 3"
  by (simp add: policyMatches_unsorted policyDatabase_def)

lemma policyMatches_ids:
  "map (docId \<circ> document) (policyMatches t c) = map docId policyDatabase"
  by (simp add: policyMatches_unsorted policyMatch_def policyDatabase_def)

lemma policyMatches_from_database:
  "m \<in> set (policyMatches t c) \<Longrightarrow>
   \<exists>p \<in> set policyDatabase. document m = p\<lparr>relevanceScore := relevanceScore (document m)\<rparr>"
  by (auto simp add: policyMatches_unsorted policyMatch_def in_set_enumerate_eq)

lemma policyMatches_status:
  "map (\<lambda>m. (docId (document m), complianceStatus m)) (policyMatches t c)
     = (if c > 0.8 then [(''1'', Violation), (''2'', Unclear), (''3'', Compliant)]
        else [(''1'', Unclear), (''2'', Unclear), (''3'', Unclear)])"
  by (simp add: policyMatches_unsorted policyMatch_def policyDatabase_def)

lemma analyzeText_returns:
  "classifier text = Inr sentiment \<Longrightarrow>
   analyzeText (Inr classifier) text =
     ([20, 40, 60, 80, 100],
      Returned (policyMatches (fst (detectType pollutionKeywords text))
                              (snd (detectType pollutionKeywords text))))"
  by (simp add: analyzeText_def split: prod.splits)

lemma analyzeText_zs_returns:
  "classifier text pollutionLabels = Inr out \<Longrightarrow> scores out = c # cs \<Longrightarrow>
   sentimentAnalyzer text = Inr sentiment \<Longrightarrow>
   analyzeText_zs (Inr classifier) (Inr sentimentAnalyzer) text =
     ([20, 40, 60, 80, 100],
      Returned (policyMatches (case labels out of [] \<Rightarrow> ''undefined'' | l # _ \<Rightarrow> l) c))"
  by (simp add: analyzeText_zs_def)

lemma detectType_plastic_beach:
  "detectType pollutionKeywords ''Plastic bottle and bag debris on the beach''
     = (''plastic pollution'', 0.9)"
  by (simp add: pollutionKeywords_def toLowerCase_def lowerChar_def)

text \<open>
  C2. When the pipelines answer, \<^verbatim>\<open>analyzeText\<close> (either copy) returns exactly three
  matches, one per entry of the policy database and in its order: the entries have
  distinct ids, the ids of the matched documents are those of the database, and every
  matched document is an entry of the database up to its relevance score. The database
  holds the MARPOL Annex V, EU Marine Strategy Framework Directive and Clean Water Act
  entries.
\<close>

theorem analyzeText_one_match_per_policy:
  "distinct (map docId policyDatabase) \<and>
   map title policyDatabase =
     [''MARPOL Convention - Annex V (Garbage)'', ''EU Marine Strategy Framework Directive'',
      ''Clean Water Act - Marine Protection''] \<and>
   (classifier text = Inr sentiment \<longrightarrow>
      (\<exists>ms. snd (analyzeText (Inr classifier) text) = Returned ms \<and> length ms = 3 \<and>
            map (docId \<circ> document) ms = map docId policyDatabase \<and>
            (\<forall>m \<in> set ms. \<exists>p \<in> set policyDatabase.
                document m = p\<lparr>relevanceScore := relevanceScore (document m)\<rparr>))) \<and>
   (zsClassifier text pollutionLabels = Inr out \<and> scores out = c # cs \<and>
    sentimentAnalyzer text = Inr sentiment' \<longrightarrow>
      (\<exists>ms. snd (analyzeText_zs (Inr zsClassifier) (Inr sentimentAnalyzer) text) = Returned ms \<and>
            length ms = 3 \<and>
            map (docId \<circ> document) ms = map docId policyDatabase \<and>
            (\<forall>m \<in> set ms. \<exists>p \<in> set policyDatabase.
                document m = p\<lparr>relevanceScore := relevanceScore (document m)\<rparr>)))"
proof (intro conjI impI)
  show "distinct (map docId policyDatabase)"
    by (simp add: policyDatabase_def)
  show "map title policyDatabase =
     [''MARPOL Convention - Annex V (Garbage)'', ''EU Marine Strategy Framework Directive'',
      ''Clean Water Act - Marine Protection'']"
    by (simp add: policyDatabase_def)
next
  assume "classifier text = Inr sentiment"
  then have "snd (analyzeText (Inr classifier) text)
      = Returned (policyMatches (fst (detectType pollutionKeywords text))
                                (snd (detectType pollutionKeywords text)))"
    by (simp add: analyzeText_returns)
  then show "\<exists>ms. snd (analyzeText (Inr classifier) text) = Returned ms \<and> length ms = 3 \<and>
            map (docId \<circ> document) ms = map docId policyDatabase \<and>
            (\<forall>m \<in> set ms. \<exists>p \<in> set policyDatabase.
                document m = p\<lparr>relevanceScore := relevanceScore (document m)\<rparr>)"
    using policyMatches_length policyMatches_ids policyMatches_from_database by blast
next
  assume "zsClassifier text pollutionLabels = Inr out \<and> scores out = c # cs \<and>
    sentimentAnalyzer text = Inr sentiment'"
  then have "snd (analyzeText_zs (Inr zsClassifier) (Inr sentimentAnalyzer) text)
      = Returned (policyMatches (case labels out of [] \<Rightarrow> ''undefined'' | l # _ \<Rightarrow> l) c)"
    by (simp add: analyzeText_zs_returns)
  then show "\<exists>ms. snd (analyzeText_zs (Inr zsClassifier) (Inr sentimentAnalyzer) text) = Returned ms \<and>
            length ms = 3 \<and>
            map (docId \<circ> document) ms = map docId policyDatabase \<and>
            (\<forall>m \<in> set ms. \<exists>p \<in> set policyDatabase.
                document m = p\<lparr>relevanceScore := relevanceScore (document m)\<rparr>)"
    using policyMatches_length policyMatches_ids policyMatches_from_database by blast
qed

theorem analyzeText_one_match_per_policy_witness:
  "(\<exists>ms. snd (analyzeText (Inr (\<lambda>t. Inr [\<lparr>label = ''NEGATIVE'', score = 0.98\<rparr>]))
                ''Oil spill near the harbour'') = Returned ms \<and> length ms = 3 \<and>
         map (docId \<circ> document) ms = map docId policyDatabase \<and>
         (\<forall>m \<in> set ms. \<exists>p \<in> set policyDatabase.
             document m = p\<lparr>relevanceScore := relevanceScore (document m)\<rparr>)) \<and>
   (\<exists>ms. snd (analyzeText_zs
                (Inr (\<lambda>t ls. Inr \<lparr>labels = [''oil spill'', ''marine debris''], scores = [0.7, 0.2]\<rparr>))
                (Inr (\<lambda>t. Inr [\<lparr>label = ''negative'', score = 0.9\<rparr>]))
                ''Oil spill near the harbour'') = Returned ms \<and> length ms = 3 \<and>
         map (docId \<circ> document) ms = map docId policyDatabase \<and>
         (\<forall>m \<in> set ms. \<exists>p \<in> set policyDatabase.
             document m = p\<lparr>relevanceScore := relevanceScore (document m)\<rparr>))"
  using analyzeText_one_match_per_policy
    [of "\<lambda>t. Inr [\<lparr>label = ''NEGATIVE'', score = 0.98\<rparr>]" "''Oil spill near the harbour''"
        "[\<lparr>label = ''NEGATIVE'', score = 0.98\<rparr>]"
        "\<lambda>t ls. Inr \<lparr>labels = [''oil spill'', ''marine debris''], scores = [0.7, 0.2]\<rparr>"
        "\<lparr>labels = [''oil spill'', ''marine debris''], scores = [0.7, 0.2]\<rparr>"
        "0.7" "[0.2]"
        "\<lambda>t. Inr [\<lparr>label = ''negative'', score = 0.9\<rparr>]"
        "[\<lparr>label = ''negative'', score = 0.9\<rparr>]"]
  by simp

text \<open>
  C4. When the pipelines answer, the compliance status of every match returned by
  \<^verbatim>\<open>analyzeText\<close> (either copy) is unclear when the confidence is at most 0.8; when the
  confidence exceeds 0.8 it is violation for the first policy of the database, unclear for
  the second and compliant for the third. The statuses are a function of the confidence
  alone.
\<close>

theorem analyzeText_compliance_status:
  "map docId policyDatabase = [''1'', ''2'', ''3''] \<and>
   (classifier text = Inr sentiment \<longrightarrow>
      (\<exists>ms. snd (analyzeText (Inr classifier) text) = Returned ms \<and>
            map (\<lambda>m. (docId (document m), complianceStatus m)) ms
              = (if snd (detectType pollutionKeywords text) > 0.8
                 then [(''1'', Violation), (''2'', Unclear), (''3'', Compliant)]
                 else [(''1'', Unclear), (''2'', Unclear), (''3'', Unclear)]))) \<and>
   (zsClassifier text pollutionLabels = Inr out \<and> scores out = c # cs \<and>
    sentimentAnalyzer text = Inr sentiment' \<longrightarrow>
      (\<exists>ms. snd (analyzeText_zs (Inr zsClassifier) (Inr sentimentAnalyzer) text) = Returned ms \<and>
            map (\<lambda>m. (docId (document m), complianceStatus m)) ms
              = (if c > 0.8
                 then [(''1'', Violation), (''2'', Unclear), (''3'', Compliant)]
                 else [(''1'', Unclear), (''2'', Unclear), (''3'', Unclear)])))"
proof (intro conjI impI)
  show "map docId policyDatabase = [''1'', ''2'', ''3'']"
    by (simp add: policyDatabase_def)
next
  assume "classifier text = Inr sentiment"
  then have "snd (analyzeText (Inr classifier) text)
      = Returned (policyMatches (fst (detectType pollutionKeywords text))
                                (snd (detectType pollutionKeywords text)))"
    by (simp add: analyzeText_returns)
  then show "\<exists>ms. snd (analyzeText (Inr classifier) text) = Returned ms \<and>
            map (\<lambda>m. (docId (document m), complianceStatus m)) ms
              = (if snd (detectType pollutionKeywords text) > 0.8
                 then [(''1'', Violation), (''2'', Unclear), (''3'', Compliant)]
                 else [(''1'', Unclear), (''2'', Unclear), (''3'', Unclear)])"
    by (simp add: policyMatches_status)
next
  assume "zsClassifier text pollutionLabels = Inr out \<and> scores out = c # cs \<and>
    sentimentAnalyzer text = Inr sentiment' "
  then have "snd (analyzeText_zs (Inr zsClassifier) (Inr sentimentAnalyzer) text)
      = Returned (policyMatches (case labels out of [] \<Rightarrow> ''undefined'' | l # _ \<Rightarrow> l) c)"
    by (simp add: analyzeText_zs_returns)
  then show "\<exists>ms. snd (analyzeText_zs (Inr zsClassifier) (Inr sentimentAnalyzer) text) = Returned ms \<and>
            map (\<lambda>m. (docId (document m), complianceStatus m)) ms
              = (if c > 0.8
                 then [(''1'', Violation), (''2'', Unclear), (''3'', Compliant)]
                 else [(''1'', Unclear), (''2'', Unclear), (''3'', Unclear)])"
    by (simp add: policyMatches_status)
qed

theorem analyzeText_compliance_status_witness:
  "(\<exists>ms. snd (analyzeText (Inr (\<lambda>t. Inr [\<lparr>label = ''NEGATIVE'', score = 0.98\<rparr>]))
                ''Plastic bottle and bag debris on the beach'') = Returned ms \<and>
         map (\<lambda>m. (docId (document m), complianceStatus m)) ms
           = [(''1'', Violation), (''2'', Unclear), (''3'', Compliant)]) \<and>
   (\<exists>ms. snd (analyzeText_zs
                (Inr (\<lambda>t ls. Inr \<lparr>labels = [''oil spill'', ''marine debris''], scores = [0.7, 0.1]\<rparr>))
                (Inr (\<lambda>t. Inr [\<lparr>label = ''negative'', score = 0.9\<rparr>]))
                ''Plastic bottle and bag debris on the beach'') = Returned ms \<and>
         map (\<lambda>m. (docId (document m), complianceStatus m)) ms
           = [(''1'', Unclear), (''2'', Unclear), (''3'', Unclear)])"
  using analyzeText_compliance_status
    [of "\<lambda>t. Inr [\<lparr>label = ''NEGATIVE'', score = 0.98\<rparr>]"
        "''Plastic bottle and bag debris on the beach''"
        "[\<lparr>label = ''NEGATIVE'', score = 0.98\<rparr>]"
        "\<lambda>t ls. Inr \<lparr>labels = [''oil spill'', ''marine debris''], scores = [0.7, 0.1]\<rparr>"
        "\<lparr>labels = [''oil spill'', ''marine debris''], scores = [0.7, 0.1]\<rparr>"
        "0.7" "[0.1]"
        "\<lambda>t. Inr [\<lparr>label = ''negative'', score = 0.9\<rparr>]"
        "[\<lparr>label = ''negative'', score = 0.9\<rparr>]"]
  by (simp add: detectType_plastic_beach)

lemma policyMatches_fields:
  "list_all2
     (\<lambda>m p. docId (document m) = docId p \<and> title (document m) = title p \<and>
        docType (document m) = docType p \<and>
        jurisdiction (document m) = jurisdiction p \<and>
        summary (document m) = summary p \<and>
        keyEntities (document m) = keyEntities p \<and>
        lastUpdated (document m) = lastUpdated p \<and>
        docStatus (document m) = docStatus p \<and>
        document m = p\<lparr>relevanceScore := relevanceScore (document m)\<rparr>)
     (policyMatches t c) policyDatabase"
  by (simp add: policyMatches_unsorted policyMatch_def policyDatabase_def)

text \<open>
  C10. When the pipelines answer, the document of every match returned by
  \<^verbatim>\<open>analyzeText\<close> (either copy) has the id, title, type, jurisdiction, summary, key
  entities, date of last update and status of the corresponding entry of the policy
  database: only the relevance score is replaced.
\<close>

theorem analyzeText_document_frame:
  "(classifier text = Inr sentiment \<longrightarrow>
      (\<exists>ms. snd (analyzeText (Inr classifier) text) = Returned ms \<and>
            list_all2
              (\<lambda>m p. docId (document m) = docId p \<and> title (document m) = title p \<and>
                 docType (document m) = docType p \<and>
                 jurisdiction (document m) = jurisdiction p \<and>
                 summary (document m) = summary p \<and>
                 keyEntities (document m) = keyEntities p \<and>
                 lastUpdated (document m) = lastUpdated p \<and>
                 docStatus (document m) = docStatus p \<and>
                 document m = p\<lparr>relevanceScore := relevanceScore (document m)\<rparr>)
              ms policyDatabase)) \<and>
   (zsClassifier text pollutionLabels = Inr out \<and> scores out = c # cs \<and>
    sentimentAnalyzer text = Inr sentiment' \<longrightarrow>
      (\<exists>ms. snd (analyzeText_zs (Inr zsClassifier) (Inr sentimentAnalyzer) text) = Returned ms \<and>
            list_all2
              (\<lambda>m p. docId (document m) = docId p \<and> title (document m) = title p \<and>
                 docType (document m) = docType p \<and>
                 jurisdiction (document m) = jurisdiction p \<and>
                 summary (document m) = summary p \<and>
                 keyEntities (document m) = keyEntities p \<and>
                 lastUpdated (document m) = lastUpdated p \<and>
                 docStatus (document m) = docStatus p \<and>
                 document m = p\<lparr>relevanceScore := relevanceScore (document m)\<rparr>)
              ms policyDatabase))"
proof (intro conjI impI)
  assume "classifier text = Inr sentiment"
  then have "snd (analyzeText (Inr classifier) text)
      = Returned (policyMatches (fst (detectType pollutionKeywords text))
                                (snd (detectType pollutionKeywords text)))"
    by (simp add: analyzeText_returns)
  then show "\<exists>ms. snd (analyzeText (Inr classifier) text) = Returned ms \<and>
            list_all2
              (\<lambda>m p. docId (document m) = docId p \<and> title (document m) = title p \<and>
                 docType (document m) = docType p \<and>
                 jurisdiction (document m) = jurisdiction p \<and>
                 summary (document m) = summary p \<and>
                 keyEntities (document m) = keyEntities p \<and>
                 lastUpdated (document m) = lastUpdated p \<and>
                 docStatus (document m) = docStatus p \<and>
                 document m = p\<lparr>relevanceScore := relevanceScore (document m)\<rparr>)
              ms policyDatabase"
    by (simp add: policyMatches_fields)
next
  assume "zsClassifier text pollutionLabels = Inr out \<and> scores out = c # cs \<and>
    sentimentAnalyzer text = Inr sentiment' "
  then have "snd (analyzeText_zs (Inr zsClassifier) (Inr sentimentAnalyzer) text)
      = Returned (policyMatches (case labels out of [] \<Rightarrow> ''undefined'' | l # _ \<Rightarrow> l) c)"
    by (simp add: analyzeText_zs_returns)
  then show "\<exists>ms. snd (analyzeText_zs (Inr zsClassifier) (Inr sentimentAnalyzer) text) = Returned ms \<and>
            list_all2
              (\<lambda>m p. docId (document m) = docId p \<and> title (document m) = title p \<and>
                 docType (document m) = docType p \<and>
                 jurisdiction (document m) = jurisdiction p \<and>
                 summary (document m) = summary p \<and>
                 keyEntities (document m) = keyEntities p \<and>
                 lastUpdated (document m) = lastUpdated p \<and>
                 docStatus (document m) = docStatus p \<and>
                 document m = p\<lparr>relevanceScore := relevanceScore (document m)\<rparr>)
              ms policyDatabase"
    by (simp add: policyMatches_fields)
qed

theorem analyzeText_document_frame_witness:
  "(\<exists>ms. snd (analyzeText (Inr (\<lambda>t. Inr [\<lparr>label = ''NEGATIVE'', score = 0.98\<rparr>]))
                ''Oil spill near the harbour'') = Returned ms \<and>
         list_all2
              (\<lambda>m p. docId (document m) = docId p \<and> title (document m) = title p \<and>
                 docType (document m) = docType p \<and>
                 jurisdiction (document m) = jurisdiction p \<and>
                 summary (document m) = summary p \<and>
                 keyEntities (document m) = keyEntities p \<and>
                 lastUpdated (document m) = lastUpdated p \<and>
                 docStatus (document m) = docStatus p \<and>
                 document m = p\<lparr>relevanceScore := relevanceScore (document m)\<rparr>)
              ms policyDatabase) \<and>
   (\<exists>ms. snd (analyzeText_zs
                (Inr (\<lambda>t ls. Inr \<lparr>labels = [''oil spill'', ''marine debris''], scores = [0.9, 0.1]\<rparr>))
                (Inr (\<lambda>t. Inr [\<lparr>label = ''negative'', score = 0.9\<rparr>]))
                ''Oil spill near the harbour'') = Returned ms \<and>
         list_all2
              (\<lambda>m p. docId (document m) = docId p \<and> title (document m) = title p \<and>
                 docType (document m) = docType p \<and>
                 jurisdiction (document m) = jurisdiction p \<and>
                 summary (document m) = summary p \<and>
                 keyEntities (document m) = keyEntities p \<and>
                 lastUpdated (document m) = lastUpdated p \<and>
                 docStatus (document m) = docStatus p \<and>
                 document m = p\<lparr>relevanceScore := relevanceScore (document m)\<rparr>)
              ms policyDatabase)"
  using analyzeText_document_frame
    [of "\<lambda>t. Inr [\<lparr>label = ''NEGATIVE'', score = 0.98\<rparr>]" "''Oil spill near the harbour''"
        "[\<lparr>label = ''NEGATIVE'', score = 0.98\<rparr>]"
        "\<lambda>t ls. Inr \<lparr>labels = [''oil spill'', ''marine debris''], scores = [0.9, 0.1]\<rparr>"
        "\<lparr>labels = [''oil spill'', ''marine debris''], scores = [0.9, 0.1]\<rparr>"
        "0.9" "[0.1]"
        "\<lambda>t. Inr [\<lparr>label = ''negative'', score = 0.9\<rparr>]"
        "[\<lparr>label = ''negative'', score = 0.9\<rparr>]"]
  by simp

subsection \<open>Sentiment analysis\<close>

lemma analyzeText_zs_sentiment:
  "sentimentAnalyzer text = Inr s \<Longrightarrow> sentimentAnalyzer' text = Inr s' \<Longrightarrow>
   analyzeText_zs getTextClassifier (Inr sentimentAnalyzer) text
     = analyzeText_zs getTextClassifier (Inr sentimentAnalyzer') text"
proof -
  assume a: "sentimentAnalyzer text = Inr s" and b: "sentimentAnalyzer' text = Inr s'"
  show ?thesis
  proof (cases getTextClassifier)
    case (Inl e)
    then show ?thesis by (simp add: analyzeText_zs_def)
  next
    case (Inr classifier)
    show ?thesis
    proof (cases "classifier text pollutionLabels")
      case (Inl e)
      with Inr show ?thesis by (simp add: analyzeText_zs_def)
    next
      case out: (Inr pollutionClassification)
      with Inr a b show ?thesis by (simp add: analyzeText_zs_def)
    qed
  qed
qed

text \<open>
  C5, as stated: some pair of runs on the same text, with the same classifier output and
  different sentiment outputs, returns different matches. No such pair exists, in either
  copy of \<^verbatim>\<open>analyzeText\<close>; in the copy of \<^verbatim>\<open>usePollutionData.tsx\<close> the sentiment is the
  output of the only pipeline that is called.
\<close>

theorem analyzeText_sentiment_dependence_counterexample:
  "\<not> (\<exists>text zsClassifier out sentimentAnalyzer sentimentAnalyzer' s s'.
         zsClassifier text pollutionLabels = Inr out \<and>
         sentimentAnalyzer text = Inr s \<and> sentimentAnalyzer' text = Inr s' \<and> s \<noteq> s' \<and>
         snd (analyzeText_zs (Inr zsClassifier) (Inr sentimentAnalyzer) text)
           \<noteq> snd (analyzeText_zs (Inr zsClassifier) (Inr sentimentAnalyzer') text)) \<and>
   \<not> (\<exists>text classifier classifier' s s'.
         classifier text = Inr s \<and> classifier' text = Inr s' \<and> s \<noteq> s' \<and>
         snd (analyzeText (Inr classifier) text) \<noteq> snd (analyzeText (Inr classifier') text))"
proof (intro conjI notI)
  assume "\<exists>text zsClassifier out sentimentAnalyzer sentimentAnalyzer' s s'.
         zsClassifier text pollutionLabels = Inr out \<and>
         sentimentAnalyzer text = Inr s \<and> sentimentAnalyzer' text = Inr s' \<and> s \<noteq> s' \<and>
         snd (analyzeText_zs (Inr zsClassifier) (Inr sentimentAnalyzer) text)
           \<noteq> snd (analyzeText_zs (Inr zsClassifier) (Inr sentimentAnalyzer') text)"
  then obtain tx zsClassifier sentimentAnalyzer sentimentAnalyzer' s s' where
    "sentimentAnalyzer tx = Inr s" "sentimentAnalyzer' tx = Inr s'"
    "snd (analyzeText_zs (Inr zsClassifier) (Inr sentimentAnalyzer) tx)
       \<noteq> snd (analyzeText_zs (Inr zsClassifier) (Inr sentimentAnalyzer') tx)"
    by blast
  then show False
    using analyzeText_zs_sentiment [of sentimentAnalyzer tx s sentimentAnalyzer' s' "Inr zsClassifier"]
    by simp
next
  assume "\<exists>text classifier classifier' s s'.
         classifier text = Inr s \<and> classifier' text = Inr s' \<and> s \<noteq> s' \<and>
         snd (analyzeText (Inr classifier) text) \<noteq> snd (analyzeText (Inr classifier') text)"
  then obtain tx classifier classifier' s s' where
    "classifier tx = Inr s" "classifier' tx = Inr s'"
    "snd (analyzeText (Inr classifier) tx) \<noteq> snd (analyzeText (Inr classifier') tx)"
    by blast
  then show False
    using analyzeText_returns [of classifier tx s] analyzeText_returns [of classifier' tx s']
    by simp
qed

lemma analyzeText_throws:
  "classifier text = Inl e \<Longrightarrow> analyzeText (Inr classifier) text = ([20, 40], Threw failedText)"
  by (simp add: analyzeText_def)

lemma analyzeText_zs_sentiment_throws:
  "classifier text pollutionLabels = Inr out \<Longrightarrow> sentimentAnalyzer text = Inl e \<Longrightarrow>
   analyzeText_zs (Inr classifier) (Inr sentimentAnalyzer) text = ([20, 40, 60], Threw failedText)"
  by (simp add: analyzeText_zs_def)

text \<open>
  C5, amended. \<^verbatim>\<open>analyzeText\<close> runs the sentiment analysis and does not use its result.
  In the copy of \<^verbatim>\<open>unnamed/part_001\<close> the sentiment analyzer is loaded and called: when
  loading it fails the run throws after the progress value 20, and when its call fails the
  run throws after 20, 40, 60. In the copy of \<^verbatim>\<open>usePollutionData.tsx\<close> the sentiment is the
  output of the one text classification call: when it fails the run throws after 20, 40.
  When the calls answer, the run passes 20, 40, 60, 80, 100 and returns the policy matches
  of the first label and the first score of the zero-shot classification
  (\<^verbatim>\<open>unnamed/part_001\<close>), or of the type and the confidence that the keywords of the text
  give (\<^verbatim>\<open>usePollutionData.tsx\<close>), whatever the sentiment output is. So two runs on the
  same text that differ in the sentiment output alone pass the same progress values and
  return the same matches.
\<close>

theorem analyzeText_ignores_sentiment:
  "analyzeText_zs (Inr zsClassifier) (Inl loadError) text = ([20], Threw failedText) \<and>
   (zsClassifier text pollutionLabels = Inr out \<and> failingAnalyzer text = Inl e \<longrightarrow>
      analyzeText_zs (Inr zsClassifier) (Inr failingAnalyzer) text
        = ([20, 40, 60], Threw failedText)) \<and>
   (zsClassifier text pollutionLabels = Inr out \<and> scores out = c # cs \<and>
    sentimentAnalyzer text = Inr s \<longrightarrow>
      analyzeText_zs (Inr zsClassifier) (Inr sentimentAnalyzer) text
        = ([20, 40, 60, 80, 100],
           Returned (policyMatches (case labels out of [] \<Rightarrow> ''undefined'' | l # _ \<Rightarrow> l) c))) \<and>
   (sentimentAnalyzer text = Inr s \<and> sentimentAnalyzer' text = Inr s' \<longrightarrow>
      analyzeText_zs getTextClassifier (Inr sentimentAnalyzer) text
        = analyzeText_zs getTextClassifier (Inr sentimentAnalyzer') text) \<and>
   (failingClassifier text = Inl e' \<longrightarrow>
      analyzeText (Inr failingClassifier) text = ([20, 40], Threw failedText)) \<and>
   (classifier text = Inr r \<longrightarrow>
      analyzeText (Inr classifier) text
        = ([20, 40, 60, 80, 100],
           Returned (policyMatches (fst (detectType pollutionKeywords text))
                                   (snd (detectType pollutionKeywords text))))) \<and>
   (classifier text = Inr r \<and> classifier' text = Inr r' \<longrightarrow>
      analyzeText (Inr classifier) text = analyzeText (Inr classifier') text)"
proof (intro conjI impI)
  show "analyzeText_zs (Inr zsClassifier) (Inl loadError) text = ([20], Threw failedText)"
    by (simp add: analyzeText_zs_def)
next
  assume "zsClassifier text pollutionLabels = Inr out \<and> failingAnalyzer text = Inl e"
  then show "analyzeText_zs (Inr zsClassifier) (Inr failingAnalyzer) text
        = ([20, 40, 60], Threw failedText)"
    by (simp add: analyzeText_zs_sentiment_throws)
next
  assume "zsClassifier text pollutionLabels = Inr out \<and> scores out = c # cs \<and>
    sentimentAnalyzer text = Inr s"
  then show "analyzeText_zs (Inr zsClassifier) (Inr sentimentAnalyzer) text
        = ([20, 40, 60, 80, 100],
           Returned (policyMatches (case labels out of [] \<Rightarrow> ''undefined'' | l # _ \<Rightarrow> l) c))"
    by (simp add: analyzeText_zs_returns)
next
  assume "sentimentAnalyzer text = Inr s \<and> sentimentAnalyzer' text = Inr s'"
  then show "analyzeText_zs getTextClassifier (Inr sentimentAnalyzer) text
        = analyzeText_zs getTextClassifier (Inr sentimentAnalyzer') text"
    using analyzeText_zs_sentiment [of sentimentAnalyzer "text" s sentimentAnalyzer' s' getTextClassifier]
    by blast
next
  assume "failingClassifier text = Inl e'"
  then show "analyzeText (Inr failingClassifier) text = ([20, 40], Threw failedText)"
    by (rule analyzeText_throws)
next
  assume "classifier text = Inr r"
  then show "analyzeText (Inr classifier) text
        = ([20, 40, 60, 80, 100],
           Returned (policyMatches (fst (detectType pollutionKeywords text))
                                   (snd (detectType pollutionKeywords text))))"
    by (rule analyzeText_returns)
next
  assume "classifier text = Inr r \<and> classifier' text = Inr r'"
  then show "analyzeText (Inr classifier) text = analyzeText (Inr classifier') text"
    using analyzeText_returns [of classifier "text" r] analyzeText_returns [of classifier' "text" r']
    by simp
qed

theorem analyzeText_ignores_sentiment_witness:
  "analyzeText_zs
      (Inr (\<lambda>t ls. Inr \<lparr>labels = [''oil spill'', ''marine debris''], scores = [0.9, 0.1]\<rparr>))
      (Inl ''Failed to fetch'') ''Oil spill near the harbour''
     = ([20], Threw failedText) \<and>
   analyzeText_zs
      (Inr (\<lambda>t ls. Inr \<lparr>labels = [''oil spill'', ''marine debris''], scores = [0.9, 0.1]\<rparr>))
      (Inr (\<lambda>t. Inl ''Session error'')) ''Oil spill near the harbour''
     = ([20, 40, 60], Threw failedText) \<and>
   analyzeText_zs
      (Inr (\<lambda>t ls. Inr \<lparr>labels = [''oil spill'', ''marine debris''], scores = [0.9, 0.1]\<rparr>))
      (Inr (\<lambda>t. Inr [\<lparr>label = ''negative'', score = 0.9\<rparr>])) ''Oil spill near the harbour''
     = ([20, 40, 60, 80, 100], Returned (policyMatches ''oil spill'' 0.9)) \<and>
   analyzeText_zs
      (Inr (\<lambda>t ls. Inr \<lparr>labels = [''oil spill'', ''marine debris''], scores = [0.9, 0.1]\<rparr>))
      (Inr (\<lambda>t. Inr [\<lparr>label = ''negative'', score = 0.9\<rparr>])) ''Oil spill near the harbour''
     = analyzeText_zs
      (Inr (\<lambda>t ls. Inr \<lparr>labels = [''oil spill'', ''marine debris''], scores = [0.9, 0.1]\<rparr>))
      (Inr (\<lambda>t. Inr [\<lparr>label = ''positive'', score = 0.6\<rparr>])) ''Oil spill near the harbour'' \<and>
   analyzeText (Inr (\<lambda>t. Inl ''Session error'')) ''Oil spill near the harbour''
     = ([20, 40], Threw failedText) \<and>
   analyzeText (Inr (\<lambda>t. Inr [\<lparr>label = ''NEGATIVE'', score = 0.98\<rparr>])) ''Oil spill near the harbour''
     = ([20, 40, 60, 80, 100],
        Returned (policyMatches (fst (detectType pollutionKeywords ''Oil spill near the harbour''))
                                (snd (detectType pollutionKeywords ''Oil spill near the harbour'')))) \<and>
   analyzeText (Inr (\<lambda>t. Inr [\<lparr>label = ''NEGATIVE'', score = 0.98\<rparr>])) ''Oil spill near the harbour''
     = analyzeText (Inr (\<lambda>t. Inr [\<lparr>label = ''POSITIVE'', score = 0.75\<rparr>])) ''Oil spill near the harbour''"
proof -
  note T = analyzeText_ignores_sentiment
    [of "\<lambda>t ls. Inr \<lparr>labels = [''oil spill'', ''marine debris''], scores = [0.9, 0.1]\<rparr>"
        "''Failed to fetch''"
        "''Oil spill near the harbour''"
        "\<lparr>labels = [''oil spill'', ''marine debris''], scores = [0.9, 0.1]\<rparr>"
        "\<lambda>t. Inl ''Session error''"
        "''Session error''"
        "0.9" "[0.1]"
        "\<lambda>t. Inr [\<lparr>label = ''negative'', score = 0.9\<rparr>]"
        "[\<lparr>label = ''negative'', score = 0.9\<rparr>]"
        "\<lambda>t. Inr [\<lparr>label = ''positive'', score = 0.6\<rparr>]"
        "[\<lparr>label = ''positive'', score = 0.6\<rparr>]"
        "Inr (\<lambda>t ls. Inr \<lparr>labels = [''oil spill'', ''marine debris''], scores = [0.9, 0.1]\<rparr>)"
        "\<lambda>t. Inl ''Session error''"
        "''Session error''"
        "\<lambda>t. Inr [\<lparr>label = ''NEGATIVE'', score = 0.98\<rparr>]"
        "[\<lparr>label = ''NEGATIVE'', score = 0.98\<rparr>]"
        "\<lambda>t. Inr [\<lparr>label = ''POSITIVE'', score = 0.75\<rparr>]"
        "[\<lparr>label = ''POSITIVE'', score = 0.75\<rparr>]"]
  note T2 = conjunct2 [OF T]
  note T3 = conjunct2 [OF T2]
  note T4 = conjunct2 [OF T3]
  note T5 = conjunct2 [OF T4]
  note T6 = conjunct2 [OF T5]
  note T7 = conjunct2 [OF T6]
  show ?thesis
  proof (intro conjI)
    show "analyzeText_zs
      (Inr (\<lambda>t ls. Inr \<lparr>labels = [''oil spill'', ''marine debris''], scores = [0.9, 0.1]\<rparr>))
      (Inl ''Failed to fetch'') ''Oil spill near the harbour''
     = ([20], Threw failedText)"
      by (rule conjunct1 [OF T])
    show "analyzeText_zs
      (Inr (\<lambda>t ls. Inr \<lparr>labels = [''oil spill'', ''marine debris''], scores = [0.9, 0.1]\<rparr>))
      (Inr (\<lambda>t. Inl ''Session error'')) ''Oil spill near the harbour''
     = ([20, 40, 60], Threw failedText)"
      by (rule mp [OF conjunct1 [OF T2]]) simp
    have "analyzeText_zs
      (Inr (\<lambda>t ls. Inr \<lparr>labels = [''oil spill'', ''marine debris''], scores = [0.9, 0.1]\<rparr>))
      (Inr (\<lambda>t. Inr [\<lparr>label = ''negative'', score = 0.9\<rparr>])) ''Oil spill near the harbour''
     = ([20, 40, 60, 80, 100],
        Returned (policyMatches
          (case labels \<lparr>labels = [''oil spill'', ''marine debris''], scores = [0.9, 0.1]\<rparr> of
             [] \<Rightarrow> ''undefined'' | l # _ \<Rightarrow> l) 0.9))"
      by (rule mp [OF conjunct1 [OF T3]]) simp
    then show "analyzeText_zs
      (Inr (\<lambda>t ls. Inr \<lparr>labels = [''oil spill'', ''marine debris''], scores = [0.9, 0.1]\<rparr>))
      (Inr (\<lambda>t. Inr [\<lparr>label = ''negative'', score = 0.9\<rparr>])) ''Oil spill near the harbour''
     = ([20, 40, 60, 80, 100], Returned (policyMatches ''oil spill'' 0.9))"
      by simp
    show "analyzeText_zs
      (Inr (\<lambda>t ls. Inr \<lparr>labels = [''oil spill'', ''marine debris''], scores = [0.9, 0.1]\<rparr>))
      (Inr (\<lambda>t. Inr [\<lparr>label = ''negative'', score = 0.9\<rparr>])) ''Oil spill near the harbour''
     = analyzeText_zs
      (Inr (\<lambda>t ls. Inr \<lparr>labels = [''oil spill'', ''marine debris''], scores = [0.9, 0.1]\<rparr>))
      (Inr (\<lambda>t. Inr [\<lparr>label = ''positive'', score = 0.6\<rparr>])) ''Oil spill near the harbour''"
      by (rule mp [OF conjunct1 [OF T4]]) simp
    show "analyzeText (Inr (\<lambda>t. Inl ''Session error'')) ''Oil spill near the harbour''
     = ([20, 40], Threw failedText)"
      by (rule mp [OF conjunct1 [OF T5]]) simp
    show "analyzeText (Inr (\<lambda>t. Inr [\<lparr>label = ''NEGATIVE'', score = 0.98\<rparr>])) ''Oil spill near the harbour''
     = ([20, 40, 60, 80, 100],
        Returned (policyMatches (fst (detectType pollutionKeywords ''Oil spill near the harbour''))
                                (snd (detectType pollutionKeywords ''Oil spill near the harbour''))))"
      by (rule mp [OF conjunct1 [OF T6]]) simp
    show "analyzeText (Inr (\<lambda>t. Inr [\<lparr>label = ''NEGATIVE'', score = 0.98\<rparr>])) ''Oil spill near the harbour''
     = analyzeText (Inr (\<lambda>t. Inr [\<lparr>label = ''POSITIVE'', score = 0.75\<rparr>])) ''Oil spill near the harbour''"
      by (rule mp [OF T7]) simp
  qed
qed

subsection \<open>Progress\<close>

text \<open>
  C8, as stated: in any run the progress values end at 100. A run of \<^verbatim>\<open>analyzeText\<close>
  whose text classifier cannot be loaded reports 20 and throws; a run of \<^verbatim>\<open>analyzeImage\<close>
  whose classifier fails on the image reports 20 and 40 and throws.
\<close>

theorem progress_ends_at_100_counterexample:
  "analyzeText_zs (Inl ''Failed to fetch'') (Inr (\<lambda>t. Inr [])) ''Oil spill near the harbour''
     = ([20], Threw ''Failed to analyze text. Please try again.'') \<and>
   last [20 :: nat] \<noteq> 100 \<and>
   analyzeImage (\<lambda>n. 0) (Inr (\<lambda>url. Inl ''Failed to fetch'')) ''blob:beach''
     = ([20, 40], Threw ''Failed to analyze image. Please try again.'') \<and>
   last [20, 40 :: nat] \<noteq> 100"
  by (simp add: analyzeText_zs_def analyzeImage_def failedText_def failedImage_def)

text \<open>
  C8, amended. A run of \<^verbatim>\<open>analyzeText\<close> that does not throw passes 20, 40, 60, 80, 100 to
  \<^verbatim>\<open>onProgress\<close>, and a run of \<^verbatim>\<open>analyzeImage\<close> that does not throw passes 20, 40, 70, 100;
  a run that throws passes a proper prefix of that sequence. In every run the values
  are strictly increasing.
\<close>

theorem progress_sequences:
  "(case snd (analyzeText_zs getZsClassifier getSentimentAnalyzer text) of
      Threw msg \<Rightarrow> fst (analyzeText_zs getZsClassifier getSentimentAnalyzer text)
                     \<in> {[20], [20, 40], [20, 40, 60]}
    | _ \<Rightarrow> fst (analyzeText_zs getZsClassifier getSentimentAnalyzer text) = [20, 40, 60, 80, 100]) \<and>
   sorted_wrt (<) (fst (analyzeText_zs getZsClassifier getSentimentAnalyzer text)) \<and>
   (case snd (analyzeText getTextClassifier text) of
      Threw msg \<Rightarrow> fst (analyzeText getTextClassifier text) \<in> {[20], [20, 40]}
    | _ \<Rightarrow> fst (analyzeText getTextClassifier text) = [20, 40, 60, 80, 100]) \<and>
   sorted_wrt (<) (fst (analyzeText getTextClassifier text)) \<and>
   (case snd (analyzeImage rnd getImageClassifier imageUrl) of
      Threw msg \<Rightarrow> fst (analyzeImage rnd getImageClassifier imageUrl) \<in> {[20], [20, 40]}
    | _ \<Rightarrow> fst (analyzeImage rnd getImageClassifier imageUrl) = [20, 40, 70, 100]) \<and>
   sorted_wrt (<) (fst (analyzeImage rnd getImageClassifier imageUrl))"
proof (intro conjI)
  show "case snd (analyzeText_zs getZsClassifier getSentimentAnalyzer text) of
      Threw msg \<Rightarrow> fst (analyzeText_zs getZsClassifier getSentimentAnalyzer text)
                     \<in> {[20], [20, 40], [20, 40, 60]}
    | _ \<Rightarrow> fst (analyzeText_zs getZsClassifier getSentimentAnalyzer text) = [20, 40, 60, 80, 100]"
    by (auto simp add: analyzeText_zs_def split: sum.splits list.splits)
  show "sorted_wrt (<) (fst (analyzeText_zs getZsClassifier getSentimentAnalyzer text))"
    by (simp add: analyzeText_zs_def split: sum.splits list.splits)
  show "case snd (analyzeText getTextClassifier text) of
      Threw msg \<Rightarrow> fst (analyzeText getTextClassifier text) \<in> {[20], [20, 40]}
    | _ \<Rightarrow> fst (analyzeText getTextClassifier text) = [20, 40, 60, 80, 100]"
    by (simp add: analyzeText_def split: sum.splits prod.splits)
  show "sorted_wrt (<) (fst (analyzeText getTextClassifier text))"
    by (simp add: analyzeText_def split: sum.splits prod.splits)
  show "case snd (analyzeImage rnd getImageClassifier imageUrl) of
      Threw msg \<Rightarrow> fst (analyzeImage rnd getImageClassifier imageUrl) \<in> {[20], [20, 40]}
    | _ \<Rightarrow> fst (analyzeImage rnd getImageClassifier imageUrl) = [20, 40, 70, 100]"
    by (simp add: analyzeImage_def split: sum.splits prod.splits)
  show "sorted_wrt (<) (fst (analyzeImage rnd getImageClassifier imageUrl))"
    by (simp add: analyzeImage_def split: sum.splits prod.splits)
qed

subsection \<open>The simulated analysis\<close>

lemma showNat_3: "showNat (Suc (Suc (Suc 0))) = ''3''"
  by (subst showNat.simps) simp

text \<open>
  C7. For every uploaded image, \<^verbatim>\<open>simulateAnalysis\<close> does the same: after resetting the
  progress it awaits a timeout of 800 ms before each of the progress values 20, 45, 70,
  90, 100, and then sets the three fixed detection results (Plastic Debris 0.94 high, Oil
  Contamination 0.87 critical, Chemical Waste 0.76 medium). Nothing of the file is read.
\<close>

theorem simulateAnalysis_fixed_run:
  "simulateAnalysis (Some f) =
     [SetIsAnalyzing True, SetAnalysisProgress 0,
      AwaitTimeout 800, SetAnalysisProgress 20,
      AwaitTimeout 800, SetAnalysisProgress 45,
      AwaitTimeout 800, SetAnalysisProgress 70,
      AwaitTimeout 800, SetAnalysisProgress 90,
      AwaitTimeout 800, SetAnalysisProgress 100,
      SetResults
        [\<lparr>resultType = ''Plastic Debris'', confidence = 0.94,
          location = \<lparr>loc_x = 120, loc_y = 80, loc_width = 150, loc_height = 100\<rparr>,
          severity = High\<rparr>,
         \<lparr>resultType = ''Oil Contamination'', confidence = 0.87,
          location = \<lparr>loc_x = 300, loc_y = 200, loc_width = 200, loc_height = 120\<rparr>,
          severity = Critical\<rparr>,
         \<lparr>resultType = ''Chemical Waste'', confidence = 0.76,
          location = \<lparr>loc_x = 50, loc_y = 300, loc_width = 180, loc_height = 90\<rparr>,
          severity = Medium\<rparr>],
      SetIsAnalyzing False,
      Toast ''Analysis Complete'' ''Detected 3 pollution sources with high confidence.'']"
  by (simp add: simulateAnalysis_def steps_def mockResults_def showNat_3)

subsection \<open>The image analysis\<close>

lemma included_eq:
  "(isPollutionRelated (toLowerCase (label p)) \<or> score p > 0.3) =
   (list_ex (\<lambda>keyword. includes_str (toLowerCase (label p)) keyword \<or>
                        includes_str keyword (toLowerCase (label p)))
            [''plastic'', ''waste'', ''trash'', ''debris'', ''oil'', ''spill'',
             ''contamination'', ''pollution'', ''garbage'', ''litter''] \<or>
    score p > 0.3)"
  by (simp only: isPollutionRelated_def imageKeywords_def)

text \<open>The loop pushes one result for each prediction that passes the test, in order.\<close>

lemma fold_pushPrediction:
  "map (\<lambda>r. (resultType r, confidence r, severity r)) (fst (fold (pushPrediction rnd) ps (acc, n)))
     = map (\<lambda>r. (resultType r, confidence r, severity r)) acc
       @ map (\<lambda>p. (fst (categorize p), score p, snd (categorize p)))
           (filter (\<lambda>p. isPollutionRelated (toLowerCase (label p)) \<or> score p > 0.3) ps)"
proof (induction ps arbitrary: acc n)
  case Nil
  show ?case by simp
next
  case (Cons p ps)
  show ?case
  proof (cases "isPollutionRelated (toLowerCase (label p)) \<or> score p > 0.3")
    case True
    then have "pushPrediction rnd p (acc, n) =
        (acc @ [\<lparr>resultType = fst (categorize p), confidence = score p,
                  location = fst (randomLocation rnd n), severity = snd (categorize p)\<rparr>],
         snd (randomLocation rnd n))"
      by (simp add: pushPrediction_def split: prod.splits)
    with True show ?thesis
      by (simp add: Cons.IH)
  next
    case False
    then have "pushPrediction rnd p (acc, n) = (acc, n)"
      by (simp add: pushPrediction_def)
    with False show ?thesis
      by (simp add: Cons.IH)
  qed
qed

lemma forEachPrediction_results:
  "map (\<lambda>r. (resultType r, confidence r, severity r)) (fst (forEachPrediction rnd ps))
     = map (\<lambda>p. (fst (categorize p), score p, snd (categorize p)))
         (filter (\<lambda>p. isPollutionRelated (toLowerCase (label p)) \<or> score p > 0.3) ps)"
  by (simp add: forEachPrediction_def fold_pushPrediction)

lemma forEachPrediction_empty:
  "(fst (forEachPrediction rnd ps) = []) =
   (\<not> list_ex (\<lambda>p. isPollutionRelated (toLowerCase (label p)) \<or> score p > 0.3) ps)"
proof -
  have "(fst (forEachPrediction rnd ps) = []) =
      (map (\<lambda>r. (resultType r, confidence r, severity r)) (fst (forEachPrediction rnd ps)) = [])"
    by simp
  also have "\<dots> = (filter (\<lambda>p. isPollutionRelated (toLowerCase (label p)) \<or> score p > 0.3) ps = [])"
    by (simp only: forEachPrediction_results map_is_Nil_conv)
  finally show ?thesis by (simp add: filter_empty_list_ex)
qed

lemma analyzeImage_returns:
  "classifier imageUrl = Inr predictions \<Longrightarrow>
   analyzeImage rnd (Inr classifier) imageUrl =
     ([20, 40, 70, 100],
      Returned (take 5
        (if list_ex (\<lambda>p. isPollutionRelated (toLowerCase (label p)) \<or> score p > 0.3) predictions
         then fst (forEachPrediction rnd predictions)
         else (case predictions of
                 [] \<Rightarrow> []
               | topPrediction # _ \<Rightarrow>
                   [fallbackResult rnd (snd (forEachPrediction rnd predictions)) topPrediction]))))"
proof -
  assume a: "classifier imageUrl = Inr predictions"
  obtain results n where f: "forEachPrediction rnd predictions = (results, n)"
    by (cases "forEachPrediction rnd predictions")
  have e: "(results = []) =
      (\<not> list_ex (\<lambda>p. isPollutionRelated (toLowerCase (label p)) \<or> score p > 0.3) predictions)"
    using forEachPrediction_empty [of rnd predictions] by (simp add: f)
  have run: "analyzeImage rnd (Inr classifier) imageUrl =
      ([20, 40, 70, 100],
       Returned (take 5
         (if length results = 0 \<and> length predictions > 0
          then results @ [fallbackResult rnd n (hd predictions)]
          else results)))"
    using a by (simp add: analyzeImage_def f)
  show ?thesis
    unfolding run f fst_conv snd_conv
    using e by (cases predictions) auto
qed

lemma categorize_oil_chemical:
  "fst (categorize p) = ''Oil Contamination'' \<or> fst (categorize p) = ''Chemical Waste'' \<Longrightarrow>
   snd (categorize p) = (if score p > 0.6 then Critical else if score p > 0.4 then High else Medium)"
proof -
  have oil: "toLowerCase ''Oil Contamination'' = ''oil contamination''"
    by (simp add: toLowerCase_def lowerChar_def)
  have chem: "toLowerCase ''Chemical Waste'' = ''chemical waste''"
    by (simp add: toLowerCase_def lowerChar_def)
  have oil_in: "includes_str ''oil contamination'' ''oil''" by simp
  have chem_in: "includes_str ''chemical waste'' ''chemical''" by simp
  assume "fst (categorize p) = ''Oil Contamination'' \<or> fst (categorize p) = ''Chemical Waste''"
  then show ?thesis
    using oil chem oil_in chem_in
    by (auto simp add: categorize_def Let_def split: if_splits)
qed


lemma categorize_type_oil_chemical:
  "(fst (categorize p) = ''Oil Contamination'' \<or> fst (categorize p) = ''Chemical Waste'') =
   (\<not> (includes_str (toLowerCase (label p)) ''plastic'' \<or>
        includes_str (toLowerCase (label p)) ''trash'' \<or>
        includes_str (toLowerCase (label p)) ''garbage'') \<and>
    (includes_str (toLowerCase (label p)) ''oil'' \<or>
     includes_str (toLowerCase (label p)) ''spill'' \<or>
     includes_str (toLowerCase (label p)) ''chemical'' \<or>
     includes_str (toLowerCase (label p)) ''contamination''))"
proof -
  have oil: "toLowerCase ''Oil Contamination'' = ''oil contamination''"
    by (simp add: toLowerCase_def lowerChar_def)
  have chem: "toLowerCase ''Chemical Waste'' = ''chemical waste''"
    by (simp add: toLowerCase_def lowerChar_def)
  have oil_in: "includes_str ''oil contamination'' ''oil''" by simp
  have chem_in: "includes_str ''chemical waste'' ''chemical''" by simp
  show ?thesis
    using oil chem oil_in chem_in
    by (auto simp add: categorize_def Let_def split: if_splits)
qed

text \<open>
  C6, as stated: the severity of an included prediction labelled oil or chemical is
  critical when its score exceeds 0.6. The prediction labelled Plastic oil with score
  0.65 is included and its label contains oil, yet it is typed Plastic Debris and its
  severity is medium: the test for plastic, trash and garbage comes first.
\<close>

theorem analyzeImage_oil_severity_counterexample:
  "fst (forEachPrediction (\<lambda>n. 0) [\<lparr>label = ''Plastic oil'', score = 0.65\<rparr>])
     = [\<lparr>resultType = ''Plastic Debris'', confidence = 0.65,
         location = \<lparr>loc_x = 50, loc_y = 50, loc_width = 100, loc_height = 80\<rparr>,
         severity = Medium\<rparr>] \<and>
   snd (analyzeImage (\<lambda>n. 0) (Inr (\<lambda>url. Inr [\<lparr>label = ''Plastic oil'', score = 0.65\<rparr>]))
          ''blob:beach'')
     = Returned
         [\<lparr>resultType = ''Plastic Debris'', confidence = 0.65,
           location = \<lparr>loc_x = 50, loc_y = 50, loc_width = 100, loc_height = 80\<rparr>,
           severity = Medium\<rparr>] \<and>
   includes_str (toLowerCase ''Plastic oil'') ''oil'' \<and> (0.65 :: real) > 0.6 \<and>
   Medium \<noteq> Critical"
  by (simp add: analyzeImage_def forEachPrediction_def pushPrediction_def isPollutionRelated_def
      imageKeywords_def categorize_def randomLocation_def fallbackResult_def
      toLowerCase_def lowerChar_def)

text \<open>
  C6, amended. For every list of classifier predictions, \<^verbatim>\<open>analyzeImage\<close> includes a
  prediction in its array \<^verbatim>\<open>results\<close> if and only if the lowercased label of the prediction
  matches a keyword of the fixed list (the label contains the keyword or the keyword
  contains the label) or its score exceeds 0.3: the array holds one entry for each such
  prediction, in the order of the predictions, and none for the others. The severity of
  an included prediction whose lowercased label contains oil, spill, chemical or
  contamination and none of plastic, trash, garbage (these are the predictions typed Oil
  Contamination or Chemical Waste) is critical if its score exceeds 0.6, high if it
  exceeds 0.4, and medium otherwise.
\<close>

theorem analyzeImage_inclusion_filter:
  "map (\<lambda>r. (resultType r, confidence r, severity r)) (fst (forEachPrediction rnd predictions))
     = map (\<lambda>p. (fst (categorize p), score p, snd (categorize p)))
         (filter (\<lambda>p. list_ex (\<lambda>keyword. includes_str (toLowerCase (label p)) keyword \<or>
                                 includes_str keyword (toLowerCase (label p)))
                      [''plastic'', ''waste'', ''trash'', ''debris'', ''oil'', ''spill'',
                       ''contamination'', ''pollution'', ''garbage'', ''litter''] \<or>
                    score p > 0.3) predictions) \<and>
   ((fst (categorize p) = ''Oil Contamination'' \<or> fst (categorize p) = ''Chemical Waste'') =
     (\<not> (includes_str (toLowerCase (label p)) ''plastic'' \<or>
          includes_str (toLowerCase (label p)) ''trash'' \<or>
          includes_str (toLowerCase (label p)) ''garbage'') \<and>
      (includes_str (toLowerCase (label p)) ''oil'' \<or>
       includes_str (toLowerCase (label p)) ''spill'' \<or>
       includes_str (toLowerCase (label p)) ''chemical'' \<or>
       includes_str (toLowerCase (label p)) ''contamination''))) \<and>
   (fst (categorize p) = ''Oil Contamination'' \<or> fst (categorize p) = ''Chemical Waste'' \<longrightarrow>
      snd (categorize p)
        = (if score p > 0.6 then Critical else if score p > 0.4 then High else Medium)) \<and>
   (\<not> (includes_str (toLowerCase (label p)) ''plastic'' \<or>
         includes_str (toLowerCase (label p)) ''trash'' \<or>
         includes_str (toLowerCase (label p)) ''garbage'') \<and>
    (includes_str (toLowerCase (label p)) ''oil'' \<or>
     includes_str (toLowerCase (label p)) ''spill'' \<or>
     includes_str (toLowerCase (label p)) ''chemical'' \<or>
     includes_str (toLowerCase (label p)) ''contamination'') \<longrightarrow>
      snd (categorize p)
        = (if score p > 0.6 then Critical else if score p > 0.4 then High else Medium))"
proof (intro conjI impI)
  show "map (\<lambda>r. (resultType r, confidence r, severity r)) (fst (forEachPrediction rnd predictions))
     = map (\<lambda>p. (fst (categorize p), score p, snd (categorize p)))
         (filter (\<lambda>p. list_ex (\<lambda>keyword. includes_str (toLowerCase (label p)) keyword \<or>
                                 includes_str keyword (toLowerCase (label p)))
                      [''plastic'', ''waste'', ''trash'', ''debris'', ''oil'', ''spill'',
                       ''contamination'', ''pollution'', ''garbage'', ''litter''] \<or>
                    score p > 0.3) predictions)"
    by (simp only: forEachPrediction_results included_eq)
next
  show "(fst (categorize p) = ''Oil Contamination'' \<or> fst (categorize p) = ''Chemical Waste'') =
     (\<not> (includes_str (toLowerCase (label p)) ''plastic'' \<or>
          includes_str (toLowerCase (label p)) ''trash'' \<or>
          includes_str (toLowerCase (label p)) ''garbage'') \<and>
      (includes_str (toLowerCase (label p)) ''oil'' \<or>
       includes_str (toLowerCase (label p)) ''spill'' \<or>
       includes_str (toLowerCase (label p)) ''chemical'' \<or>
       includes_str (toLowerCase (label p)) ''contamination''))"
    by (rule categorize_type_oil_chemical)
next
  assume "fst (categorize p) = ''Oil Contamination'' \<or> fst (categorize p) = ''Chemical Waste''"
  then show "snd (categorize p)
        = (if score p > 0.6 then Critical else if score p > 0.4 then High else Medium)"
    by (rule categorize_oil_chemical)
next
  assume "\<not> (includes_str (toLowerCase (label p)) ''plastic'' \<or>
         includes_str (toLowerCase (label p)) ''trash'' \<or>
         includes_str (toLowerCase (label p)) ''garbage'') \<and>
    (includes_str (toLowerCase (label p)) ''oil'' \<or>
     includes_str (toLowerCase (label p)) ''spill'' \<or>
     includes_str (toLowerCase (label p)) ''chemical'' \<or>
     includes_str (toLowerCase (label p)) ''contamination'') "
  then have "fst (categorize p) = ''Oil Contamination'' \<or> fst (categorize p) = ''Chemical Waste''"
    by (rule iffD2 [OF categorize_type_oil_chemical])
  then show "snd (categorize p)
        = (if score p > 0.6 then Critical else if score p > 0.4 then High else Medium)"
    by (rule categorize_oil_chemical)
qed

theorem analyzeImage_inclusion_filter_witness:
  "map (\<lambda>r. (resultType r, confidence r, severity r))
     (fst (forEachPrediction (\<lambda>n. 0)
        [\<lparr>label = ''Oil Spill'', score = 0.7\<rparr>, \<lparr>label = ''seashore'', score = 0.1\<rparr>]))
     = [(''Oil Contamination'', 0.7, Critical)] \<and>
   fst (categorize \<lparr>label = ''Oil Spill'', score = 0.7\<rparr>) = ''Oil Contamination'' \<and>
   snd (categorize \<lparr>label = ''Oil Spill'', score = 0.7\<rparr>) = Critical"
proof -
  let ?oil = "\<lparr>label = ''Oil Spill'', score = 0.7\<rparr>"
  let ?sea = "\<lparr>label = ''seashore'', score = 0.1\<rparr>"
  let ?preds = "[?oil, ?sea]"
  let ?inc = "(\<lambda>p. list_ex (\<lambda>keyword. includes_str (toLowerCase (label p)) keyword \<or>
                                 includes_str keyword (toLowerCase (label p)))
                      [''plastic'', ''waste'', ''trash'', ''debris'', ''oil'', ''spill'',
                       ''contamination'', ''pollution'', ''garbage'', ''litter''] \<or>
                    score p > 0.3)"
  note T = analyzeImage_inclusion_filter [of "\<lambda>n. 0" ?preds ?oil]
  note T2 = conjunct2 [OF T]
  note T3 = conjunct2 [OF T2]
  note T4 = conjunct2 [OF T3]
  have low1: "toLowerCase ''Oil Spill'' = ''oil spill''"
    by (simp add: toLowerCase_def lowerChar_def)
  have low2: "toLowerCase ''seashore'' = ''seashore''"
    by (simp add: toLowerCase_def lowerChar_def)
  have inc1: "?inc ?oil"
    by (simp add: low1)
  have inc2: "\<not> ?inc ?sea"
    by (simp add: low2)
  have flt: "filter ?inc ?preds = [?oil]"
    using inc1 inc2 by (simp only: filter.simps if_True if_False)
  have lbl: "\<not> (includes_str (toLowerCase (label ?oil)) ''plastic'' \<or>
         includes_str (toLowerCase (label ?oil)) ''trash'' \<or>
         includes_str (toLowerCase (label ?oil)) ''garbage'') \<and>
    (includes_str (toLowerCase (label ?oil)) ''oil'' \<or>
     includes_str (toLowerCase (label ?oil)) ''spill'' \<or>
     includes_str (toLowerCase (label ?oil)) ''chemical'' \<or>
     includes_str (toLowerCase (label ?oil)) ''contamination'')"
    by (simp add: low1)
  have ty: "fst (categorize ?oil) = ''Oil Contamination'' \<or> fst (categorize ?oil) = ''Chemical Waste''"
    by (rule iffD2 [OF conjunct1 [OF T2] lbl])
  have ty': "fst (categorize ?oil) = ''Oil Contamination''"
    by (simp add: categorize_def low1)
  have sev: "snd (categorize ?oil)
        = (if score ?oil > 0.6 then Critical else if score ?oil > 0.4 then High else Medium)"
    by (rule mp [OF T4 lbl])
  have sev_ty: "snd (categorize ?oil)
        = (if score ?oil > 0.6 then Critical else if score ?oil > 0.4 then High else Medium)"
    by (rule mp [OF conjunct1 [OF T3] ty])
  have w3: "snd (categorize ?oil) = Critical"
    using sev by simp
  have A: "map (\<lambda>r. (resultType r, confidence r, severity r))
      (fst (forEachPrediction (\<lambda>n. 0) ?preds))
      = map (\<lambda>p. (fst (categorize p), score p, snd (categorize p))) (filter ?inc ?preds)"
    by (rule conjunct1 [OF T])
  have w1: "map (\<lambda>r. (resultType r, confidence r, severity r))
      (fst (forEachPrediction (\<lambda>n. 0) ?preds)) = [(''Oil Contamination'', 0.7, Critical)]"
    by (simp only: A flt) (simp add: ty' w3)
  from w1 ty' w3 show ?thesis
    by (intro conjI)
qed

text \<open>
  C9. When the classifier answers, \<^verbatim>\<open>analyzeImage\<close> returns at most five results, and at
  least one when there is a prediction: when no prediction passes the inclusion test,
  the result is the single fallback result built from the first prediction, of type
  Potential followed by its label, with its score as confidence and severity medium if
  the score exceeds 0.7 and low otherwise.
\<close>

theorem analyzeImage_at_most_five:
  "classifier imageUrl = Inr predictions \<longrightarrow>
     (\<exists>rs. snd (analyzeImage rnd (Inr classifier) imageUrl) = Returned rs \<and>
           length rs \<le> 5 \<and>
           (predictions \<noteq> [] \<longrightarrow> rs \<noteq> []) \<and>
           (predictions \<noteq> [] \<and>
            \<not> list_ex (\<lambda>p. isPollutionRelated (toLowerCase (label p)) \<or> score p > 0.3)
                 predictions \<longrightarrow>
              (\<exists>loc. rs = [\<lparr>resultType = ''Potential '' @ label (hd predictions),
                             confidence = score (hd predictions),
                             location = loc,
                             severity = (if score (hd predictions) > 0.7 then Medium else Low)\<rparr>])))"
proof
  assume a: "classifier imageUrl = Inr predictions"
  let ?inc = "\<lambda>p. isPollutionRelated (toLowerCase (label p)) \<or> score p > 0.3"
  let ?rs = "take 5
        (if list_ex ?inc predictions
         then fst (forEachPrediction rnd predictions)
         else (case predictions of
                 [] \<Rightarrow> []
               | topPrediction # _ \<Rightarrow>
                   [fallbackResult rnd (snd (forEachPrediction rnd predictions)) topPrediction]))"
  have ret: "snd (analyzeImage rnd (Inr classifier) imageUrl) = Returned ?rs"
    using a by (simp add: analyzeImage_returns)
  have len: "length ?rs \<le> 5"
    by simp
  have nonempty: "predictions \<noteq> [] \<longrightarrow> ?rs \<noteq> []"
  proof (cases "list_ex ?inc predictions")
    case True
    then have "fst (forEachPrediction rnd predictions) \<noteq> []"
      by (simp add: forEachPrediction_empty)
    with True show ?thesis by simp
  next
    case False
    then show ?thesis by (cases predictions) simp_all
  qed
  have fallback: "predictions \<noteq> [] \<and> \<not> list_ex ?inc predictions \<longrightarrow>
      (\<exists>loc. ?rs = [\<lparr>resultType = ''Potential '' @ label (hd predictions),
                       confidence = score (hd predictions),
                       location = loc,
                       severity = (if score (hd predictions) > 0.7 then Medium else Low)\<rparr>])"
    by (cases predictions) (simp_all add: fallbackResult_def)
  from ret len nonempty fallback
  show "\<exists>rs. snd (analyzeImage rnd (Inr classifier) imageUrl) = Returned rs \<and>
           length rs \<le> 5 \<and>
           (predictions \<noteq> [] \<longrightarrow> rs \<noteq> []) \<and>
           (predictions \<noteq> [] \<and> \<not> list_ex ?inc predictions \<longrightarrow>
              (\<exists>loc. rs = [\<lparr>resultType = ''Potential '' @ label (hd predictions),
                             confidence = score (hd predictions),
                             location = loc,
                             severity = (if score (hd predictions) > 0.7 then Medium else Low)\<rparr>]))"
    by blast
qed

theorem analyzeImage_at_most_five_witness:
  "\<exists>rs. snd (analyzeImage (\<lambda>n. 0)
               (Inr (\<lambda>url. Inr [\<lparr>label = ''seashore'', score = 0.2\<rparr>,
                                \<lparr>label = ''sandbar'', score = 0.1\<rparr>]))
               ''blob:beach'') = Returned rs \<and>
        length rs \<le> 5 \<and> rs \<noteq> [] \<and>
        (\<exists>loc. rs = [\<lparr>resultType = ''Potential seashore'', confidence = 0.2,
                       location = loc, severity = Low\<rparr>])"
proof -
  let ?preds = "[\<lparr>label = ''seashore'', score = 0.2\<rparr>, \<lparr>label = ''sandbar'', score = 0.1\<rparr>]"
  let ?cls = "\<lambda>url :: string. (Inr ?preds :: string + prediction list)"
  let ?inc = "\<lambda>p. isPollutionRelated (toLowerCase (label p)) \<or> score p > 0.3"
  have h: "?cls ''blob:beach'' = Inr ?preds"
    by simp
  have seashore: "\<not> isPollutionRelated (toLowerCase ''seashore'')"
    by (simp add: isPollutionRelated_def imageKeywords_def toLowerCase_def lowerChar_def)
  have sandbar: "\<not> isPollutionRelated (toLowerCase ''sandbar'')"
    by (simp add: isPollutionRelated_def imageKeywords_def toLowerCase_def lowerChar_def)
  have none: "\<not> list_ex ?inc ?preds"
    using seashore sandbar by simp
  have ne: "?preds \<noteq> []"
    by simp
  have "\<exists>rs. snd (analyzeImage (\<lambda>n. 0) (Inr ?cls) ''blob:beach'') = Returned rs \<and>
           length rs \<le> 5 \<and>
           (?preds \<noteq> [] \<longrightarrow> rs \<noteq> []) \<and>
           (?preds \<noteq> [] \<and> \<not> list_ex ?inc ?preds \<longrightarrow>
              (\<exists>loc. rs = [\<lparr>resultType = ''Potential '' @ label (hd ?preds),
                             confidence = score (hd ?preds),
                             location = loc,
                             severity = (if score (hd ?preds) > 0.7 then Medium else Low)\<rparr>]))"
    by (rule mp [OF analyzeImage_at_most_five [of ?cls "''blob:beach''" ?preds "\<lambda>n. 0"] h])
  then obtain rs where
    ret: "snd (analyzeImage (\<lambda>n. 0) (Inr ?cls) ''blob:beach'') = Returned rs" and
    len: "length rs \<le> 5" and
    nonempty: "?preds \<noteq> [] \<longrightarrow> rs \<noteq> []" and
    fallback: "?preds \<noteq> [] \<and> \<not> list_ex ?inc ?preds \<longrightarrow>
              (\<exists>loc. rs = [\<lparr>resultType = ''Potential '' @ label (hd ?preds),
                             confidence = score (hd ?preds),
                             location = loc,
                             severity = (if score (hd ?preds) > 0.7 then Medium else Low)\<rparr>])"
    by (elim exE conjE)
  from nonempty ne have r1: "rs \<noteq> []"
    by (rule mp)
  from fallback ne none
  have "\<exists>loc. rs = [\<lparr>resultType = ''Potential '' @ label (hd ?preds),
                             confidence = score (hd ?preds),
                             location = loc,
                             severity = (if score (hd ?preds) > 0.7 then Medium else Low)\<rparr>]"
    by (simp only: simp_thms)
  then have r2: "\<exists>loc. rs = [\<lparr>resultType = ''Potential seashore'', confidence = 0.2,
                       location = loc, severity = Low\<rparr>]"
    by simp
  from ret len r1 r2 show ?thesis
    by (intro exI [of _ rs] conjI)
qed

end
